theory Spec2Isabelle
  imports Complex_Main
begin

section \<open>Band-excitation loop model: the chunked guess and fit pipeline\<close>

text \<open>
  The development follows \<^verbatim>\<open>pycroscopy/analysis/be_loop_model.py\<close>. Methods of
  \<^verbatim>\<open>BELoopModel\<close> keep their names without the leading underscore. Python
  exceptions are values of \<open>py_error\<close>; a method that can raise returns
  \<open>py_error + 'a\<close>.
\<close>

datatype py_error =
  ValueError | TypeError | IndexError | ZeroDivisionError | OverflowError | UnboundLocalError

subsection \<open>Number of clusters of the guess cascade\<close>

text \<open>
  \<^verbatim>\<open>int(n ** 0.5)\<close> truncates the square root of the row count. \<open>floor_sqrt\<close>
  computes that integer by recursion on \<open>n\<close>; \<open>floor_sqrt_eq\<close> below shows that it is
  the floor of the real square root.
\<close>

primrec floor_sqrt :: "nat \<Rightarrow> nat" where
  "floor_sqrt 0 = 0"
| "floor_sqrt (Suc n) =
     (let r = floor_sqrt n in if (r + 1) * (r + 1) \<le> Suc n then r + 1 else r)"

text \<open>
  Line 1016 of \<^verbatim>\<open>_guess_loops\<close>:
  \<^verbatim>\<open>num_clusters = max(2, int(projected_loops_2d.shape[0] ** 0.5))\<close>.
\<close>

definition num_clusters :: "nat \<Rightarrow> nat" where
  "num_clusters num_loops = max 2 (floor_sqrt num_loops)"

subsection \<open>Arrays, tables and slices\<close>

text \<open>
  A numpy array or an HDF5 table is its shape and its elements in row-major (C) order.
  All tables of the file are two-dimensional.
\<close>

record 'a ndarray =
  shape :: "nat list"
  data :: "'a list"

definition nrows :: "'a ndarray \<Rightarrow> nat" where
  "nrows a = (case shape a of [] \<Rightarrow> 0 | r # _ \<Rightarrow> r)"

definition ncols :: "'a ndarray \<Rightarrow> nat" where
  "ncols a = (case shape a of [_, c] \<Rightarrow> c | _ \<Rightarrow> 0)"

text \<open>Row \<open>i\<close> of a two-dimensional array: \<^verbatim>\<open>a[i, :]\<close>.\<close>

definition row2d :: "'a ndarray \<Rightarrow> nat \<Rightarrow> 'a list" where
  "row2d a i = take (ncols a) (drop (i * ncols a) (data a))"

text \<open>
  A Python slice with non-negative bounds; \<open>SliceAll\<close> is \<^verbatim>\<open>slice(None)\<close>. Slicing clips
  at the end of the sequence.
\<close>

datatype slice = SliceAll | Slice nat nat

fun slice_list :: "slice \<Rightarrow> 'a list \<Rightarrow> 'a list" where
  "slice_list SliceAll xs = xs"
| "slice_list (Slice a b) xs = take (b - a) (drop a xs)"

text \<open>\<^verbatim>\<open>a[rs, cs]\<close> on a two-dimensional array or table.\<close>

definition getitem2d :: "'a ndarray \<Rightarrow> slice \<Rightarrow> slice \<Rightarrow> 'a ndarray" where
  "getitem2d a rs cs =
     (let rws = map (\<lambda>i. slice_list cs (row2d a i)) (slice_list rs [0..<nrows a])
      in \<lparr>shape = [length rws, length (slice_list cs [0..<ncols a])], data = concat rws\<rparr>)"

text \<open>\<^verbatim>\<open>np.unique(v).size\<close>: the number of distinct values.\<close>

definition unique_size :: "'a list \<Rightarrow> nat" where
  "unique_size v = length (remdups v)"

text \<open>\<^verbatim>\<open>np.argwhere(labels == name)[0][0]\<close>: the first position of a label, or IndexError.\<close>

fun argwhere_first :: "'a list \<Rightarrow> 'a \<Rightarrow> py_error + nat" where
  "argwhere_first [] name = Inl IndexError"
| "argwhere_first (l # ls) name =
     (if l = name then Inr 0
      else case argwhere_first ls name of Inl e \<Rightarrow> Inl e | Inr i \<Rightarrow> Inr (Suc i))"

text \<open>\<^verbatim>\<open>list.remove(x)\<close>: drops the first occurrence, ValueError when there is none.\<close>

definition list_remove :: "'a list \<Rightarrow> 'a \<Rightarrow> py_error + 'a list" where
  "list_remove xs x = (if x \<in> set xs then Inr (remove1 x xs) else Inl ValueError)"

text \<open>
  \<^verbatim>\<open>a[rows, cs]\<close> with a list of row numbers: the listed rows, each sliced; IndexError
  when a row number is out of range.
\<close>

definition getitem_rows :: "'a ndarray \<Rightarrow> nat list \<Rightarrow> slice \<Rightarrow> py_error + 'a ndarray" where
  "getitem_rows a rows cs =
     (if list_all (\<lambda>i. i < nrows a) rows
      then Inr \<lparr>shape = [length rows, length (slice_list cs [0..<ncols a])],
                data = concat (map (\<lambda>i. slice_list cs (row2d a i)) rows)\<rparr>
      else Inl IndexError)"

subsection \<open>N-dimensional reshaping and transposition\<close>

text \<open>
  The multi-index of the flat position \<open>k\<close> in an array of shape \<open>s\<close> (row-major), and
  the flat position of a multi-index.
\<close>

fun unravel :: "nat list \<Rightarrow> nat \<Rightarrow> nat list" where
  "unravel [] k = []"
| "unravel (d # ds) k = (k div prod_list ds) # unravel ds (k mod prod_list ds)"

fun ravel :: "nat list \<Rightarrow> nat list \<Rightarrow> nat" where
  "ravel (d # ds) (i # is) = i * prod_list ds + ravel ds is"
| "ravel ds is = 0"

definition index_of :: "nat list \<Rightarrow> nat \<Rightarrow> nat" where
  "index_of axes j = length (takeWhile (\<lambda>x. x \<noteq> j) axes)"

text \<open>\<open>axes\<close> is a permutation of the \<open>n\<close> axis numbers; numpy raises ValueError otherwise.\<close>

definition valid_axes :: "nat list \<Rightarrow> nat \<Rightarrow> bool" where
  "valid_axes axes n = (length axes = n \<and> distinct axes \<and> list_all (\<lambda>x. x < n) axes)"

text \<open>
  \<^verbatim>\<open>np.transpose(a, axes)\<close>: axis \<open>i\<close> of the result is axis \<open>axes ! i\<close> of \<open>a\<close>, so the
  element at the multi-index \<open>idx\<close> of the result is the element of \<open>a\<close> whose index at
  axis \<open>axes ! i\<close> is \<open>idx ! i\<close>.
\<close>

definition np_transpose :: "'a ndarray \<Rightarrow> nat list \<Rightarrow> py_error + 'a ndarray" where
  "np_transpose a axes =
     (if \<not> valid_axes axes (length (shape a)) then Inl ValueError
      else
        let new_shape = map (\<lambda>i. shape a ! i) axes
        in Inr \<lparr>shape = new_shape,
                data = map (\<lambda>k. let idx = unravel new_shape k
                                 in data a ! ravel (shape a)
                                      (map (\<lambda>j. idx ! index_of axes j) [0..<length axes]))
                         [0..<prod_list new_shape]\<rparr>)"

text \<open>\<^verbatim>\<open>np.reshape(a, newshape)\<close> keeps the elements in order; the sizes must agree.\<close>

definition np_reshape :: "'a ndarray \<Rightarrow> nat list \<Rightarrow> py_error + 'a ndarray" where
  "np_reshape a newshape =
     (if prod_list newshape = length (data a) then Inr \<lparr>shape = newshape, data = data a\<rparr>
      else Inl ValueError)"

text \<open>
  \<^verbatim>\<open>np.reshape(a, (n0, -1))\<close>: the second extent is inferred; numpy raises ValueError when
  \<open>n0\<close> is zero or does not divide the size.
\<close>

definition np_reshape_rows :: "'a ndarray \<Rightarrow> nat \<Rightarrow> py_error + 'a ndarray" where
  "np_reshape_rows a n0 =
     (if n0 = 0 \<or> length (data a) mod n0 \<noteq> 0 then Inl ValueError
      else Inr \<lparr>shape = [n0, length (data a) div n0], data = data a\<rparr>)"



subsection \<open>The fit record and the model object\<close>

text \<open>
  The compound type \<^verbatim>\<open>loop_fit32\<close> (lines 58 to 60): nine model coefficients and the
  \<^verbatim>\<open>R2 Criterion\<close>, in this order.
\<close>

record loop_fit32 =
  a_0 :: real
  a_1 :: real
  a_2 :: real
  a_3 :: real
  a_4 :: real
  b_0 :: real
  b_1 :: real
  b_2 :: real
  b_3 :: real
  R2_Criterion :: real

text \<open>
  The fields of a \<^verbatim>\<open>BELoopModel\<close> object that the methods below read or write. The
  spectroscopic index tables carry their \<^verbatim>\<open>labels\<close> attribute beside them;
  \<open>h5_main_dtype_len\<close> and \<open>h5_main_itemsize\<close> are \<^verbatim>\<open>len(self.h5_main.dtype)\<close> and
  \<^verbatim>\<open>self.h5_main.dtype[0].itemsize\<close>; \<open>maxCpus\<close>, \<open>maxMemoryMB\<close> and \<open>maxDataChunk\<close> are
  set by the base class \<^verbatim>\<open>Model\<close>. A data set that does not exist yet is \<open>None\<close>. A cell of
  the table of loop parameters is the row of switching parameters of one fit record.
\<close>

record be_loop_model =
  sho_spec_inds :: "nat ndarray"
  sho_spec_labels :: "string list"
  met_spec_inds :: "nat ndarray"
  met_spec_labels :: "string list"
  sho_pos_inds :: "nat ndarray"
  h5_main_dtype_len :: nat
  h5_main_itemsize :: nat
  h5_projected_loops :: "real ndarray"
  h5_guess :: "loop_fit32 ndarray option"
  h5_fit :: "loop_fit32 ndarray option"
  h5_fit_parameters :: "real list ndarray option"
  dc_spec_index :: nat
  dc_offset_index :: nat
  num_forcs :: nat
  num_forc_repeats :: nat
  max_pos :: nat
  sho_spec_inds_per_forc :: nat
  metrics_spec_inds_per_forc :: nat
  sho_all_but_forc_inds :: "nat list"
  met_all_but_forc_inds :: "nat list"
  current_sho_spec_slice :: slice
  current_met_spec_slice :: slice
  current_forc :: nat
  start_pos :: nat
  end_pos :: nat
  data_chunk :: "real ndarray option"
  guess :: "real list list"
  dc_vec :: "real list"
  maxCpus :: nat
  maxMemoryMB :: nat
  maxDataChunk :: nat

subsection \<open>The chunk planner\<close>

text \<open>
  Modelled from the spec: \<^verbatim>\<open>get_dimensionality\<close> of \<^verbatim>\<open>io/hdf_utils.py\<close>, which is not
  part of the sources. The specification (4.2) has it compute the cardinality of every
  listed axis as the number of distinct values of its row of the index table.
\<close>

definition get_dimensionality :: "nat ndarray \<Rightarrow> nat list \<Rightarrow> py_error + nat list" where
  "get_dimensionality ds_index index_sort =
     (if \<forall>i \<in> set index_sort. i < nrows ds_index
      then Inr (map (\<lambda>i. unique_size (row2d ds_index i)) index_sort)
      else Inl IndexError)"

text \<open>
  Step 1 of \<^verbatim>\<open>_get_sho_chunk_sizes\<close> (lines 526 to 550): the number of DC steps, the
  FORC and FORC-repeat axes when the labels name them, and the number of loops per FORC.
  \<open>forc_name\<close>, \<open>forc_pos\<close> and \<open>forc_repeat_pos\<close> are local variables that stay unbound
  (\<open>None\<close>) when their branch is not taken.
\<close>

record chunk_step1 =
  num_dc_steps :: nat
  step1_num_forcs :: nat
  step1_num_forc_repeats :: nat
  forc_name :: "string option"
  forc_pos :: "nat option"
  forc_repeat_pos :: "nat option"
  loops_per_forc :: nat

definition chunk_sizes_step1 :: "be_loop_model \<Rightarrow> py_error + chunk_step1" where
  "chunk_sizes_step1 self =
     (if nrows (sho_spec_inds self) \<le> dc_spec_index self then Inl IndexError
      else
        let n_dc = unique_size (row2d (sho_spec_inds self) (dc_spec_index self));
            labels = sho_spec_labels self;
            has_forcs = (''FORC'' \<in> set labels \<or> ''FORC_Cycle'' \<in> set labels)
        in case list_remove [0..<nrows (sho_spec_inds self)] (dc_spec_index self) of
          Inl e \<Rightarrow> Inl e
        | Inr dims1 \<Rightarrow>
            (case
               (if \<not> has_forcs
                then Inr (num_forcs self, num_forc_repeats self, None, None, None, dims1)
                else
                  let fname = (if ''FORC'' \<in> set labels then ''FORC'' else ''FORC_Cycle'')
                  in case argwhere_first labels fname of
                    Inl e \<Rightarrow> Inl e
                  | Inr fpos \<Rightarrow>
                      if nrows (sho_spec_inds self) \<le> fpos then Inl IndexError
                      else
                        let nf = unique_size (row2d (sho_spec_inds self) fpos)
                        in case list_remove dims1 fpos of
                          Inl e \<Rightarrow> Inl e
                        | Inr dims2 \<Rightarrow>
                            if ''FORC_repeat'' \<notin> set labels
                            then Inr (nf, num_forc_repeats self, Some fname, Some fpos, None, dims2)
                            else
                              (case argwhere_first labels ''FORC_repeat'' of
                                 Inl e \<Rightarrow> Inl e
                               | Inr rpos \<Rightarrow>
                                   if nrows (sho_spec_inds self) \<le> rpos then Inl IndexError
                                   else
                                     let nr = unique_size (row2d (sho_spec_inds self) rpos)
                                     in case list_remove dims2 rpos of
                                       Inl e \<Rightarrow> Inl e
                                     | Inr dims3 \<Rightarrow>
                                         Inr (nf, nr, Some fname, Some fpos, Some rpos, dims3)))
             of
               Inl e \<Rightarrow> Inl e
             | Inr (nf, nr, fname, fpos, rpos, all_spec_dims) \<Rightarrow>
                 (case get_dimensionality (sho_spec_inds self) all_spec_dims of
                    Inl e \<Rightarrow> Inl e
                  | Inr loop_dims \<Rightarrow>
                      Inr \<lparr>num_dc_steps = n_dc, step1_num_forcs = nf,
                           step1_num_forc_repeats = nr, forc_name = fname, forc_pos = fpos,
                           forc_repeat_pos = rpos, loops_per_forc = prod_list loop_dims\<rparr>)))"

text \<open>
  Step 2 (lines 553 to 566). \<open>size_per_forc\<close> is the byte size of one position's data for
  one FORC cycle. \<^verbatim>\<open>int(max_mem_mb * 1024 ** 2 / (size_per_forc * 3.5))\<close> is the floor of
  the exact quotient, \<open>2 * budget div (7 * size_per_forc)\<close>; with a zero
  \<open>size_per_forc\<close> the numpy quotient is infinite or not a number and \<^verbatim>\<open>int\<close> raises.
  The two divisions of the columns-per-FORC counts are floor divisions of natural
  numbers; a zero divisor raises.
\<close>

definition size_per_forc :: "be_loop_model \<Rightarrow> chunk_step1 \<Rightarrow> nat" where
  "size_per_forc self s1 =
     num_dc_steps s1 * loops_per_forc s1 * h5_main_dtype_len self * h5_main_itemsize self"

definition mem_max_pos :: "nat \<Rightarrow> nat \<Rightarrow> py_error + nat" where
  "mem_max_pos max_mem_mb size_pf =
     (if size_pf = 0 then Inl (if max_mem_mb = 0 then ValueError else OverflowError)
      else Inr ((2 * (max_mem_mb * 1024 ^ 2)) div (7 * size_pf)))"

definition inds_per_forc :: "nat \<Rightarrow> nat \<Rightarrow> nat \<Rightarrow> py_error + nat" where
  "inds_per_forc n nf nr =
     (if nf = 0 \<or> nr = 0 then Inl ZeroDivisionError else Inr (n div nf div nr))"

text \<open>
  Step 3 (lines 569 to 579): the rows of the two index tables without the FORC and
  FORC-repeat rows. Reading \<open>forc_pos\<close>, \<open>forc_name\<close> or \<open>forc_repeat_pos\<close> while unbound
  raises.
\<close>

definition chunk_sizes_step3 ::
  "be_loop_model \<Rightarrow> chunk_step1 \<Rightarrow> py_error + (nat list \<times> nat list)" where
  "chunk_sizes_step3 self s1 =
     (let sho_all = [0..<nrows (sho_spec_inds self)];
          met_all = [0..<nrows (met_spec_inds self)]
      in if \<not> 1 < step1_num_forcs s1 then Inr (sho_all, met_all)
         else case (forc_pos s1, forc_name s1) of
           (Some fpos, Some fname) \<Rightarrow>
             (case list_remove sho_all fpos of
                Inl e \<Rightarrow> Inl e
              | Inr sho1 \<Rightarrow>
                  (case argwhere_first (met_spec_labels self) fname of
                     Inl e \<Rightarrow> Inl e
                   | Inr met_forc_pos \<Rightarrow>
                       (case list_remove met_all met_forc_pos of
                          Inl e \<Rightarrow> Inl e
                        | Inr met1 \<Rightarrow>
                            if \<not> 1 < step1_num_forc_repeats s1 then Inr (sho1, met1)
                            else case forc_repeat_pos s1 of
                              None \<Rightarrow> Inl UnboundLocalError
                            | Some rpos \<Rightarrow>
                                (case list_remove sho1 rpos of
                                   Inl e \<Rightarrow> Inl e
                                 | Inr sho2 \<Rightarrow>
                                     (case argwhere_first (met_spec_labels self) ''FORC_repeat'' of
                                        Inl e \<Rightarrow> Inl e
                                      | Inr met_forc_repeat_pos \<Rightarrow>
                                          (case list_remove met1 met_forc_repeat_pos of
                                             Inl e \<Rightarrow> Inl e
                                           | Inr met2 \<Rightarrow> Inr (sho2, met2)))))))
         | _ \<Rightarrow> Inl UnboundLocalError)"

text \<open>
  \<^verbatim>\<open>_get_sho_chunk_sizes\<close> (lines 506 to 581). There is no check of \<open>max_pos\<close>: the
  method returns normally whatever the quotient is.
\<close>

definition get_sho_chunk_sizes :: "be_loop_model \<Rightarrow> nat \<Rightarrow> py_error + be_loop_model" where
  "get_sho_chunk_sizes self max_mem_mb =
     (case chunk_sizes_step1 self of
        Inl e \<Rightarrow> Inl e
      | Inr s1 \<Rightarrow>
          (case mem_max_pos max_mem_mb (size_per_forc self s1) of
             Inl e \<Rightarrow> Inl e
           | Inr mp \<Rightarrow>
               (case inds_per_forc (ncols (sho_spec_inds self))
                       (step1_num_forcs s1) (step1_num_forc_repeats s1) of
                  Inl e \<Rightarrow> Inl e
                | Inr sho_per \<Rightarrow>
                    (case inds_per_forc (ncols (met_spec_inds self))
                            (step1_num_forcs s1) (step1_num_forc_repeats s1) of
                       Inl e \<Rightarrow> Inl e
                     | Inr met_per \<Rightarrow>
                         (case chunk_sizes_step3 self s1 of
                            Inl e \<Rightarrow> Inl e
                          | Inr (sho_all, met_all) \<Rightarrow>
                              Inr (self\<lparr>num_forcs := step1_num_forcs s1,
                                         num_forc_repeats := step1_num_forc_repeats s1,
                                         max_pos := min (nrows (sho_pos_inds self)) mp,
                                         sho_spec_inds_per_forc := sho_per,
                                         metrics_spec_inds_per_forc := met_per,
                                         sho_all_but_forc_inds := sho_all,
                                         met_all_but_forc_inds := met_all\<rparr>))))))"

subsection \<open>The reshape engine\<close>

text \<open>
  Modelled from the spec: \<^verbatim>\<open>reshape_to_Ndims\<close> of \<^verbatim>\<open>io/hdf_utils.py\<close>, which is not
  part of the sources, called with \<^verbatim>\<open>h5_pos=None\<close>. The specification (4.3) has it
  reinterpret the raw two-dimensional chunk as an N-dimensional tensor whose outermost
  axis is the position and whose other axes have the cardinalities of the axis rows of
  \<open>h5_spec\<close>, and fail when the total element count does not factor into that shape. The
  axes follow the rows of \<open>h5_spec\<close>, as \<^verbatim>\<open>dim_names_orig\<close> (lines 611 and 612) names
  them. The second component is the \<^verbatim>\<open>success\<close> flag.
\<close>

definition reshape_to_Ndims :: "'a ndarray \<Rightarrow> nat ndarray \<Rightarrow> 'a ndarray \<times> bool" where
  "reshape_to_Ndims h5_main h5_spec =
     (case get_dimensionality h5_spec [0..<nrows h5_spec] of
        Inl e \<Rightarrow> (h5_main, False)
      | Inr spec_dims \<Rightarrow>
          (case np_reshape h5_main (nrows h5_main # spec_dims) of
             Inl e \<Rightarrow> (h5_main, False)
           | Inr ds_Nd \<Rightarrow> (ds_Nd, True)))"

text \<open>
  Modelled from the spec: \<^verbatim>\<open>reshape_from_Ndims\<close> of \<^verbatim>\<open>io/hdf_utils.py\<close>, which is not
  part of the sources, called with \<^verbatim>\<open>h5_pos=None\<close>. The specification (4.3) has it
  collapse the tensor back to two dimensions, position by spectroscopic column. An
  array without axes has no position axis to keep.
\<close>

definition reshape_from_Ndims ::
  "'a ndarray \<Rightarrow> nat ndarray option \<Rightarrow> 'a ndarray \<times> bool" where
  "reshape_from_Ndims ds_Nd h5_spec =
     (case shape ds_Nd of
        [] \<Rightarrow> (ds_Nd, False)
      | n # rest \<Rightarrow> (\<lparr>shape = [n, prod_list rest], data = data ds_Nd\<rparr>, True))"

text \<open>
  The two axis orders of lines 625 to 628: the DC axis first, and the order that moves it
  back. \<open>d\<close> is \<^verbatim>\<open>self._dc_offset_index\<close>, \<open>n\<close> the number of axes.
\<close>

definition order_dc_outside_nd :: "nat \<Rightarrow> nat \<Rightarrow> nat list" where
  "order_dc_outside_nd d n = [d] @ [0..<d] @ [d + 1..<n]"

definition order_dc_offset_reverse :: "nat \<Rightarrow> nat \<Rightarrow> nat list" where
  "order_dc_offset_reverse d n = [1..<d + 1] @ [0] @ [d + 1..<n]"

text \<open>
  \<^verbatim>\<open>_reshape_sho_matrix\<close> (lines 583 to 640). The result is the list of warnings
  issued and the returned value: \<open>None\<close>, or the loops as [DC step \<times> loop instance], the
  reverse order and the shape of the tensor with the DC axis first.
\<close>

definition reshape_sho_matrix ::
  "be_loop_model \<Rightarrow> 'a ndarray \<Rightarrow>
     py_error + (string list \<times> ('a ndarray \<times> nat list \<times> nat list) option)" where
  "reshape_sho_matrix self raw_2d =
     (case getitem_rows (sho_spec_inds self) (sho_all_but_forc_inds self)
             (current_sho_spec_slice self) of
        Inl e \<Rightarrow> Inl e
      | Inr h5_spec \<Rightarrow>
          (case reshape_to_Ndims raw_2d h5_spec of
             (fit_nd, success) \<Rightarrow>
               if \<not> list_all (\<lambda>i. i < length (sho_spec_labels self))
                      (sho_all_but_forc_inds self)
               then Inl IndexError
               else if \<not> success
               then Inr ([''Error - could not reshape provided raw data chunk...''], None)
               else
                 (case np_transpose fit_nd
                         (order_dc_outside_nd (dc_offset_index self) (length (shape fit_nd))) of
                    Inl e \<Rightarrow> Inl e
                  | Inr fit_nd2 \<Rightarrow>
                      (case shape fit_nd2 of
                         [] \<Rightarrow> Inl IndexError
                       | n0 # _ \<Rightarrow>
                           (case np_reshape_rows fit_nd2 n0 of
                              Inl e \<Rightarrow> Inl e
                            | Inr loops_2d \<Rightarrow>
                                Inr ([], Some (loops_2d,
                                       order_dc_offset_reverse (dc_offset_index self)
                                         (length (shape fit_nd)),
                                       shape fit_nd2)))))))"




subsection \<open>The guess cascade\<close>

text \<open>
  Floating-point numbers are modelled by real numbers; rounding, also the conversion to
  \<^verbatim>\<open>float32\<close> when a value is stored, is not represented.

  \<^verbatim>\<open>np.roll(v, k)\<close> on a vector: element \<open>i\<close> moves to position \<open>(i + k) mod n\<close>.
\<close>

definition np_roll :: "'a list \<Rightarrow> int \<Rightarrow> 'a list" where
  "np_roll v k = rotate (nat ((- k) mod int (length v))) v"

text \<open>
  \<^verbatim>\<open>shift_vdc\<close> (lines 1060 to 1080): \<^verbatim>\<open>int(-1 * len(vdc_vec) / 4)\<close> truncates
  towards zero.
\<close>

definition shift_vdc :: "real list \<Rightarrow> int \<times> real list" where
  "shift_vdc vdc_vec =
     (let shift_ind = - (int (length vdc_vec) div 4)
      in (shift_ind, np_roll vdc_vec shift_ind))"

text \<open>
  The result object of the solver (scipy's \<^verbatim>\<open>OptimizeResult\<close>): \<open>res_x\<close> is its \<^verbatim>\<open>x\<close>,
  the coefficients, and \<open>res_fun\<close> its \<^verbatim>\<open>fun\<close>, the residuals.
\<close>

record fit_result =
  res_x :: "real list"
  res_fun :: "real list"

text \<open>
  A node of the cluster tree (\<^verbatim>\<open>utils/tree.py\<close>) with the attributes the tree walk
  reads: \<^verbatim>\<open>name\<close>, \<^verbatim>\<open>value\<close> (the mean curve) and \<^verbatim>\<open>children\<close>.
\<close>

datatype tree = Node (tree_name: nat) (tree_value: "real list") (tree_children: "tree list")



text \<open>
  \<^verbatim>\<open>guess_mat[i] = v\<close> on the matrix of nine columns: numpy stores a vector of nine
  values, broadcasts a single value, and raises ValueError for any other length.
\<close>

definition assign_row :: "real list list \<Rightarrow> nat \<Rightarrow> real list \<Rightarrow> py_error + real list list" where
  "assign_row guess_mat i v =
     (if length guess_mat \<le> i then Inl IndexError
      else if length v = 9 then Inr (guess_mat[i := v])
      else if length v = 1 then Inr (guess_mat[i := replicate 9 (hd v)])
      else Inl ValueError)"

text \<open>
  \<^verbatim>\<open>_loop_fit_tree\<close> (lines 979 to 1014). \<open>fit_loop\<close> stands for \<^verbatim>\<open>fit_loop(...)[0]\<close> of
  \<^verbatim>\<open>utils/be_loop.py\<close>, the solver's result for a DC vector, a curve and an initial
  guess. \<open>fit_results\<close> starts as a list of placeholders (\<open>None\<close>). The second function
  is the \<^verbatim>\<open>for child in tree.children\<close> loop, \<open>curr_fit_results\<close> being the fit of the parent.
\<close>

fun loop_fit_tree ::
  "(real list \<Rightarrow> real list \<Rightarrow> real list \<Rightarrow> fit_result) \<Rightarrow> real list \<Rightarrow> int \<Rightarrow> tree \<Rightarrow>
     real list list \<times> fit_result option list \<Rightarrow>
     py_error + (real list list \<times> fit_result option list)"
and loop_fit_children ::
  "(real list \<Rightarrow> real list \<Rightarrow> real list \<Rightarrow> fit_result) \<Rightarrow> real list \<Rightarrow> int \<Rightarrow> fit_result \<Rightarrow>
     tree list \<Rightarrow> real list list \<times> fit_result option list \<Rightarrow>
     py_error + (real list list \<times> fit_result option list)" where
  "loop_fit_tree fit_loop vdc_shifted shift_ind (Node nm v cs) (guess_mat, fit_results) =
     (if length guess_mat \<le> nm \<or> length fit_results \<le> nm then Inl IndexError
      else
        let curr_fit_results = fit_loop vdc_shifted (np_roll v shift_ind) (guess_mat ! nm)
        in loop_fit_children fit_loop vdc_shifted shift_ind curr_fit_results cs
             (guess_mat, fit_results[nm := Some curr_fit_results]))"
| "loop_fit_children fit_loop vdc_shifted shift_ind curr_fit_results [] (guess_mat, fit_results) =
     Inr (guess_mat, fit_results)"
| "loop_fit_children fit_loop vdc_shifted shift_ind curr_fit_results (child # cs) (guess_mat, fit_results) =
     (case assign_row guess_mat (tree_name child) (res_x curr_fit_results) of
        Inl e \<Rightarrow> Inl e
      | Inr guess_mat1 \<Rightarrow>
          (case loop_fit_tree fit_loop vdc_shifted shift_ind child (guess_mat1, fit_results) of
             Inl e \<Rightarrow> Inl e
           | Inr (guess_mat2, fit_results2) \<Rightarrow>
               loop_fit_children fit_loop vdc_shifted shift_ind curr_fit_results cs
                 (guess_mat2, fit_results2)))"





text \<open>
  Modelled from the spec: \<^verbatim>\<open>realToCompound\<close> of \<^verbatim>\<open>io/io_utils.py\<close>, which is not part
  of the sources, for the type \<^verbatim>\<open>loop_fit32\<close>. The specification (6) gives the layout
  of a guess or fit record as the compound of \<^verbatim>\<open>a0\<close> to \<^verbatim>\<open>a4\<close>, \<^verbatim>\<open>b0\<close> to \<^verbatim>\<open>b3\<close> and
  the \<^verbatim>\<open>R2 Criterion\<close>; a row of ten values fills the fields in this order.
\<close>

definition realToCompound :: "real list \<Rightarrow> py_error + loop_fit32" where
  "realToCompound row =
     (if length row = 10
      then Inr \<lparr>a_0 = row ! 0, a_1 = row ! 1, a_2 = row ! 2, a_3 = row ! 3, a_4 = row ! 4,
                b_0 = row ! 5, b_1 = row ! 6, b_2 = row ! 7, b_3 = row ! 8,
                R2_Criterion = row ! 9\<rparr>
      else Inl ValueError)"

text \<open>
  Modelled from the spec: \<^verbatim>\<open>compound_to_scalar\<close> of \<^verbatim>\<open>io/io_utils.py\<close>, which is not
  part of the sources: the ten fields of the same layout as a row of scalars.
\<close>

definition compound_to_scalar :: "loop_fit32 \<Rightarrow> real list" where
  "compound_to_scalar r =
     [a_0 r, a_1 r, a_2 r, a_3 r, a_4 r, b_0 r, b_1 r, b_2 r, b_3 r, R2_Criterion r]"

definition zero_loop_fit32 :: loop_fit32 where
  "zero_loop_fit32 =
     \<lparr>a_0 = 0, a_1 = 0, a_2 = 0, a_3 = 0, a_4 = 0, b_0 = 0, b_1 = 0, b_2 = 0, b_3 = 0,
      R2_Criterion = 0\<rparr>"

text \<open>
  The body of the loop over the clusters (lines 1052 to 1056): the guess record of
  cluster \<open>clust_id\<close>. Reading a placeholder of \<open>loop_fit_results\<close> raises.
  \<^verbatim>\<open>r2 = 1 - np.sum(np.abs(fun ** 2))\<close>.
\<close>

definition cluster_guess :: "fit_result option list \<Rightarrow> nat \<Rightarrow> py_error + loop_fit32" where
  "cluster_guess loop_fit_results clust_id =
     (if length loop_fit_results \<le> clust_id then Inl IndexError
      else case loop_fit_results ! clust_id of
        None \<Rightarrow> Inl IndexError
      | Some res \<Rightarrow>
          let r2 = 1 - sum_list (map (\<lambda>v. \<bar>v ^ 2\<bar>) (res_fun res))
          in realToCompound (res_x res @ [r2]))"

text \<open>
  The loop \<^verbatim>\<open>for clust_id in range(num_clusters)\<close> (lines 1051 to 1056) over the list of
  cluster numbers: every pixel whose label is \<open>clust_id\<close> gets the cluster's record.
\<close>

fun assign_guess_parms ::
  "fit_result option list \<Rightarrow> nat list \<Rightarrow> nat list \<Rightarrow> loop_fit32 list \<Rightarrow>
     py_error + loop_fit32 list" where
  "assign_guess_parms loop_fit_results labels [] guess_parms = Inr guess_parms"
| "assign_guess_parms loop_fit_results labels (clust_id # rest) guess_parms =
     (case cluster_guess loop_fit_results clust_id of
        Inl e \<Rightarrow> Inl e
      | Inr compound \<Rightarrow>
          if list_ex (\<lambda>i. labels ! i = clust_id \<and> length guess_parms \<le> i) [0..<length labels]
          then Inl IndexError
          else assign_guess_parms loop_fit_results labels rest
                 (map (\<lambda>i. if i < length labels \<and> labels ! i = clust_id then compound
                            else guess_parms ! i)
                    [0..<length guess_parms]))"

text \<open>
  The collaborators of \<^verbatim>\<open>_guess_loops\<close> that are not part of the sources:
  \<open>kmeans\<close> is \<^verbatim>\<open>KMeans(k).fit\<close> of scikit-learn, giving the centroids and the label of
  every loop; \<open>linkage\<close> is \<^verbatim>\<open>linkage(pdist(centroids), 'weighted')\<close> of scipy, one row
  per merge with the two merged clusters and their distance; \<open>cluster_tree\<close> is
  \<^verbatim>\<open>ClusterTree\<close> of \<^verbatim>\<open>utils/tree.py\<close>, giving the root node and the number of nodes;
  \<open>generate_guess\<close> and \<open>fit_loop\<close> are the functions of \<^verbatim>\<open>utils/be_loop.py\<close>.
\<close>

record guess_services =
  kmeans :: "nat \<Rightarrow> real list list \<Rightarrow> py_error + (real list list \<times> nat list)"
  linkage :: "real list list \<Rightarrow> (nat \<times> nat \<times> real) list"
  cluster_tree ::
    "(nat \<times> nat) list \<Rightarrow> nat list \<Rightarrow> real list \<Rightarrow> real list list \<Rightarrow> tree \<times> nat"
  generate_guess :: "real list \<Rightarrow> real list \<Rightarrow> real list"
  fit_loop :: "real list \<Rightarrow> real list \<Rightarrow> real list \<Rightarrow> fit_result"

text \<open>
  \<^verbatim>\<open>_guess_loops\<close> up to the tree walk (lines 1016 to 1047): the labels of the loops and
  the fit results of all nodes. \<^verbatim>\<open>max\<close> of the merge distances raises on an empty
  list (a zero maximum gives not-a-number in numpy, which the real numbers do not
  represent); \<^verbatim>\<open>loop_guess_mat[-1]\<close> is the last row.
\<close>

definition guess_loops_fits ::
  "guess_services \<Rightarrow> real list \<Rightarrow> real list list \<Rightarrow>
     py_error + (nat list \<times> fit_result option list)" where
  "guess_loops_fits srv vdc_vec projected_loops_2d =
     (case kmeans srv (num_clusters (length projected_loops_2d)) projected_loops_2d of
        Inl e \<Rightarrow> Inl e
      | Inr (centroids, labels) \<Rightarrow>
          let linkage_pairing = linkage srv centroids;
              dists = map (\<lambda>(i, j, dist). dist) linkage_pairing
          in if dists = [] then Inl ValueError
             else
               let norm = map (\<lambda>dist. dist / Max (set dists)) dists;
                   (root, num_nodes) =
                     cluster_tree srv (map (\<lambda>(i, j, dist). (i, j)) linkage_pairing) labels
                       norm centroids;
                   loop_guess_mat = replicate num_nodes (replicate 9 0);
                   loop_fit_results = replicate num_nodes None;
                   (shift_ind, vdc_shifted) = shift_vdc vdc_vec
               in if num_nodes = 0 then Inl IndexError
                  else
                    (case assign_row loop_guess_mat (num_nodes - 1)
                            (generate_guess srv vdc_vec (tree_value root)) of
                       Inl e \<Rightarrow> Inl e
                     | Inr loop_guess_mat1 \<Rightarrow>
                         (case loop_fit_tree (fit_loop srv) vdc_shifted shift_ind root
                                 (loop_guess_mat1, loop_fit_results) of
                            Inl e \<Rightarrow> Inl e
                          | Inr (loop_guess_mat2, loop_fit_results2) \<Rightarrow>
                              Inr (labels, loop_fit_results2))))"

text \<open>\<^verbatim>\<open>_guess_loops\<close> (lines 960 to 1058).\<close>

definition guess_loops ::
  "guess_services \<Rightarrow> real list \<Rightarrow> real list list \<Rightarrow> py_error + loop_fit32 list" where
  "guess_loops srv vdc_vec projected_loops_2d =
     (case guess_loops_fits srv vdc_vec projected_loops_2d of
        Inl e \<Rightarrow> Inl e
      | Inr (labels, loop_fit_results) \<Rightarrow>
          assign_guess_parms loop_fit_results labels
            [0..<num_clusters (length projected_loops_2d)]
            (replicate (length projected_loops_2d) zero_loop_fit32))"

subsection \<open>The fit driver\<close>

text \<open>The column slice of FORC cycle \<open>forc\<close> with \<open>per\<close> columns per cycle.\<close>

definition forc_slice :: "nat \<Rightarrow> nat \<Rightarrow> slice" where
  "forc_slice per forc = Slice (per * forc) (per * (forc + 1))"

text \<open>
  \<^verbatim>\<open>_get_guess_chunk\<close> (lines 916 to 949). \<open>get_dc_offset\<close> stands for
  \<^verbatim>\<open>_get_dc_offset\<close>, which reads the table of spectroscopic values through helpers of
  \<^verbatim>\<open>io/hdf_utils.py\<close> and yields the DC vector of the current FORC cycle. The last two
  lines read the guess records of the current rows and columns, turn each into its row
  of ten scalars and drop the last column (\<^verbatim>\<open>[:, :-1]\<close>).
\<close>

definition get_guess_chunk ::
  "(be_loop_model \<Rightarrow> py_error + real list) \<Rightarrow> be_loop_model \<Rightarrow> py_error + be_loop_model" where
  "get_guess_chunk get_dc_offset self =
     (case
        (if start_pos self < max_pos self
         then
           let self1 = self\<lparr>current_sho_spec_slice :=
                               forc_slice (sho_spec_inds_per_forc self) (current_forc self)\<rparr>;
               self2 = self1\<lparr>end_pos := min (nrows (h5_projected_loops self1))
                                            (start_pos self1 + max_pos self1)\<rparr>
           in Inr (self2\<lparr>data_chunk :=
                            Some (getitem2d (h5_projected_loops self2)
                                    (Slice (start_pos self2) (end_pos self2))
                                    (current_sho_spec_slice self2))\<rparr>)
         else if current_forc self + 1 < num_forcs self
         then
           let self1 = self\<lparr>current_forc := current_forc self + 1\<rparr>;
               self2 = self1\<lparr>current_sho_spec_slice :=
                                forc_slice (sho_spec_inds_per_forc self1) (current_forc self1),
                              current_met_spec_slice :=
                                forc_slice (metrics_spec_inds_per_forc self1) (current_forc self1)\<rparr>
           in case get_dc_offset self2 of
             Inl e \<Rightarrow> Inl e
           | Inr dc \<Rightarrow>
               let self3 = self2\<lparr>dc_vec := dc, start_pos := 0\<rparr>;
                   self4 = self3\<lparr>end_pos := min (nrows (h5_projected_loops self3))
                                                (start_pos self3 + max_pos self3)\<rparr>
               in Inr (self4\<lparr>data_chunk :=
                                Some (getitem2d (h5_projected_loops self4)
                                        (Slice (start_pos self4) (end_pos self4))
                                        (current_sho_spec_slice self4))\<rparr>)
         else Inr (self\<lparr>data_chunk := None\<rparr>))
      of
        Inl e \<Rightarrow> Inl e
      | Inr self' \<Rightarrow>
          (case h5_guess self' of
             None \<Rightarrow> Inl TypeError
           | Some guess_table \<Rightarrow>
               let guess_records =
                     getitem2d guess_table (Slice (start_pos self') (end_pos self'))
                       (current_met_spec_slice self')
               in Inr (self'\<lparr>guess :=
                                map (\<lambda>r. butlast (compound_to_scalar r)) (data guess_records)\<rparr>)))"

text \<open>
  The first lines of \<^verbatim>\<open>do_fit\<close> (lines 319 to 327): the number of processors and the
  memory to use. \<^verbatim>\<open>int(max_mem / self._maxCpus)\<close> raises when there is no CPU.
\<close>

definition fit_resources ::
  "be_loop_model \<Rightarrow> nat option \<Rightarrow> nat option \<Rightarrow> py_error + (nat \<times> nat \<times> be_loop_model)" where
  "fit_resources self processors max_mem =
     (let procs = (case processors of None \<Rightarrow> maxCpus self | Some n \<Rightarrow> min n (maxCpus self))
      in case max_mem of
        None \<Rightarrow> Inr (procs, maxDataChunk self, self)
      | Some m \<Rightarrow>
          let mm = min m (maxMemoryMB self)
          in if maxCpus self = 0 then Inl ZeroDivisionError
             else Inr (procs, mm, self\<lparr>maxDataChunk := mm div maxCpus self\<rparr>))"

text \<open>
  Modelled from the spec: \<^verbatim>\<open>create_empty_dataset\<close> of \<^verbatim>\<open>io/hdf_utils.py\<close>, which is
  not part of the sources. The specification (6) has the storage create a table of a
  given type and shape; the new table has the shape of the source table and empty
  (zero) cells.
\<close>

definition create_empty_dataset :: "'a ndarray \<Rightarrow> 'b \<Rightarrow> 'b ndarray" where
  "create_empty_dataset source_dset empty_cell =
     \<lparr>shape = shape source_dset, data = replicate (length (data source_dset)) empty_cell\<rparr>"

text \<open>\<^verbatim>\<open>_create_fit_dataset\<close> (lines 1082 to 1092), with the warnings it issues.\<close>

definition create_fit_dataset :: "be_loop_model \<Rightarrow> string list \<times> be_loop_model" where
  "create_fit_dataset self =
     (case h5_guess self of
        None \<Rightarrow> ([''Need to guess before fitting!''], self)
      | Some g \<Rightarrow> ([], self\<lparr>h5_fit := Some (create_empty_dataset g zero_loop_fit32)\<rparr>))"

text \<open>
  \<^verbatim>\<open>_reformat_results\<close> (lines 1094 to 1122): each result becomes the compound of its
  coefficients followed by its \<^verbatim>\<open>fun\<close>. For a strategy other than \<^verbatim>\<open>BE_LOOP\<close> the
  variable \<^verbatim>\<open>temp\<close> is unbound at the return.
\<close>

fun compound_rows :: "real list list \<Rightarrow> py_error + loop_fit32 list" where
  "compound_rows [] = Inr []"
| "compound_rows (row # rows) =
     (case realToCompound row of
        Inl e \<Rightarrow> Inl e
      | Inr c \<Rightarrow> (case compound_rows rows of Inl e \<Rightarrow> Inl e | Inr cs \<Rightarrow> Inr (c # cs)))"

definition reformat_results :: "fit_result list \<Rightarrow> string \<Rightarrow> py_error + loop_fit32 ndarray" where
  "reformat_results results strategy =
     (if strategy = ''BE_LOOP''
      then (case compound_rows (map (\<lambda>result. res_x result @ res_fun result) results) of
              Inl e \<Rightarrow> Inl e
            | Inr cs \<Rightarrow> Inr \<lparr>shape = [length cs], data = cs\<rparr>)
      else Inl UnboundLocalError)"

text \<open>
  \<^verbatim>\<open>_reshape_results_for_h5\<close> (lines 687 to 730): the one-dimensional results of a
  chunk as [position \<times> loop], with the warnings issued.
\<close>

definition reshape_results_for_h5 ::
  "be_loop_model \<Rightarrow> 'a ndarray \<Rightarrow> nat list \<Rightarrow> py_error + (string list \<times> 'a ndarray option)" where
  "reshape_results_for_h5 self raw_results nd_mat_shape_dc_first =
     (case
        (if met_all_but_forc_inds self = []
         then (case np_reshape raw_results [length (data raw_results), 1] of
                 Inl e \<Rightarrow> Inl e
               | Inr nd \<Rightarrow> Inr (None, nd))
         else (case getitem_rows (met_spec_inds self) (met_all_but_forc_inds self)
                      (current_met_spec_slice self) of
                 Inl e \<Rightarrow> Inl e
               | Inr spec_inds \<Rightarrow>
                   (case np_reshape raw_results (tl nd_mat_shape_dc_first) of
                      Inl e \<Rightarrow> Inl e
                    | Inr nd \<Rightarrow> Inr (Some spec_inds, nd))))
      of
        Inl e \<Rightarrow> Inl e
      | Inr (spec_inds, loop_metrics_nd) \<Rightarrow>
          (case reshape_from_Ndims loop_metrics_nd spec_inds of
             (metrics_2d, success) \<Rightarrow>
               if \<not> success then Inr ([''unable to reshape ND results back to 2D''], None)
               else Inr ([], Some metrics_2d)))"

text \<open>
  \<^verbatim>\<open>np.roll(a, k, axis=0)\<close> on a two-dimensional array rolls its rows;
  \<^verbatim>\<open>np.hstack\<close> of two-dimensional arrays with equal numbers of rows puts their rows
  side by side, and raises ValueError on an empty sequence or unequal rows.
\<close>

definition np_roll_axis0 :: "'a ndarray \<Rightarrow> int \<Rightarrow> 'a ndarray" where
  "np_roll_axis0 a k =
     \<lparr>shape = shape a, data = concat (np_roll (map (row2d a) [0..<nrows a]) k)\<rparr>"

definition np_hstack :: "'a ndarray list \<Rightarrow> py_error + 'a ndarray" where
  "np_hstack arrays =
     (case arrays of
        [] \<Rightarrow> Inl ValueError
      | a # _ \<Rightarrow>
          if list_all (\<lambda>b. nrows b = nrows a) arrays
          then Inr \<lparr>shape = [nrows a, sum_list (map ncols arrays)],
                    data = concat (map (\<lambda>i. concat (map (\<lambda>b. row2d b i) arrays))
                                     [0..<nrows a])\<rparr>
          else Inl ValueError)"

text \<open>
  The collaborators of \<^verbatim>\<open>do_fit\<close> that are not part of the sources. \<open>get_dc\<close> is
  \<^verbatim>\<open>_get_dc_offset\<close> as above; \<open>compute_fit\<close> is
  \<^verbatim>\<open>LoopOptimize(data, guess).computeFit(...)\<close> with the DC vector passed as
  \<^verbatim>\<open>xvals\<close>: one result per row of \<open>data\<close>; \<open>solvers\<close> are the names in
  \<^verbatim>\<open>scipy.optimize\<close> and \<open>methods\<close> those of \<^verbatim>\<open>BE_Fit_Methods\<close>;
  \<open>calc_switching_coef_vec\<close> is the function of \<^verbatim>\<open>utils/be_loop.py\<close> that turns the
  rows of fit coefficients and the nucleation threshold into rows of switching
  parameters.
\<close>

record fit_services =
  get_dc :: "be_loop_model \<Rightarrow> py_error + real list"
  compute_fit :: "real ndarray \<Rightarrow> real list list \<Rightarrow> real list \<Rightarrow> fit_result list"
  solvers :: "string list"
  methods :: "string list"
  calc_switching_coef_vec :: "real list list \<Rightarrow> real \<Rightarrow> real list list"

text \<open>
  The values that \<^verbatim>\<open>extract_loop_parameters\<close> (lines 411 to 438) writes for a table of
  fit records: the fit records as rows of scalars, the switching parameters of these
  rows, in the shape of the fit table.
\<close>

definition loop_parameter_values ::
  "(real list list \<Rightarrow> real \<Rightarrow> real list list) \<Rightarrow> loop_fit32 ndarray \<Rightarrow> real \<Rightarrow>
     py_error + real list ndarray" where
  "loop_parameter_values calc h5_loop_fit nuc_threshold =
     (let loop_coef_vec = map compound_to_scalar (data h5_loop_fit);
          switching_coef_vec = calc loop_coef_vec nuc_threshold
      in np_reshape \<lparr>shape = [length switching_coef_vec, 1], data = switching_coef_vec\<rparr>
           (shape h5_loop_fit))"

text \<open>
  The loop \<^verbatim>\<open>while self.data is not None\<close> of \<^verbatim>\<open>do_fit\<close> (lines 382 to 393). The
  shifted loops, the shifted DC vector and the shape are those computed before the loop;
  the guess is read from the object in every round. \<open>Inr None\<close> says that the rounds
  allowed by \<open>fuel\<close> did not reach the end of the loop.
\<close>

fun do_fit_chunks ::
  "nat \<Rightarrow> fit_services \<Rightarrow> string \<Rightarrow> real ndarray option \<Rightarrow> real list \<Rightarrow> nat list \<Rightarrow>
     be_loop_model \<Rightarrow> loop_fit32 ndarray list \<Rightarrow>
     py_error + (be_loop_model \<times> loop_fit32 ndarray list) option" where
  "do_fit_chunks fuel srv strategy loops_2d_shifted vdc_shifted nd_shape self results =
     (case data_chunk self of
        None \<Rightarrow> Inr (Some (self, results))
      | Some chunk \<Rightarrow>
          (case fuel of
             0 \<Rightarrow> Inr None
           | Suc fuel' \<Rightarrow>
               (case loops_2d_shifted of
                  None \<Rightarrow> Inl TypeError
                | Some loops \<Rightarrow>
                    (case reformat_results (compute_fit srv loops (guess self) vdc_shifted)
                            strategy of
                       Inl e \<Rightarrow> Inl e
                     | Inr temp \<Rightarrow>
                         (case reshape_results_for_h5 self temp nd_shape of
                            Inl e \<Rightarrow> Inl e
                          | Inr (warnings, None) \<Rightarrow> Inl TypeError
                          | Inr (warnings, Some temp2) \<Rightarrow>
                              (case get_guess_chunk (get_dc srv)
                                      (self\<lparr>start_pos := end_pos self\<rparr>) of
                                 Inl e \<Rightarrow> Inl e
                               | Inr self' \<Rightarrow>
                                   do_fit_chunks fuel' srv strategy loops_2d_shifted
                                     vdc_shifted nd_shape self' (results @ [temp2])))))))"

text \<open>
  What \<^verbatim>\<open>do_fit\<close> hands back: the lines it printed or warned, the value it returned
  and the object afterwards.
\<close>

record do_fit_out =
  printed :: "string list"
  returned :: "loop_fit32 ndarray option"
  final :: be_loop_model

text \<open>
  \<^verbatim>\<open>do_fit\<close>, lines 347 to 354: the first chunk of the first FORC cycle.
\<close>

definition fit_first_chunk :: "fit_services \<Rightarrow> be_loop_model \<Rightarrow> py_error + be_loop_model" where
  "fit_first_chunk srv self =
     (let self1 = self\<lparr>start_pos := 0, current_forc := 0\<rparr>;
          self2 = self1\<lparr>current_sho_spec_slice :=
                           forc_slice (sho_spec_inds_per_forc self1) (current_forc self1),
                         current_met_spec_slice :=
                           forc_slice (metrics_spec_inds_per_forc self1) (current_forc self1)\<rparr>
      in case get_dc srv self2 of
        Inl e \<Rightarrow> Inl e
      | Inr dc \<Rightarrow> get_guess_chunk (get_dc srv) (self2\<lparr>dc_vec := dc\<rparr>))"

text \<open>
  \<^verbatim>\<open>do_fit\<close>, lines 359 to 365: the loops of the chunk by DC step and the shape. With a
  single spectroscopic dimension the chunk is only transposed (when there is no chunk,
  numpy wraps \<open>None\<close>); otherwise the result of \<^verbatim>\<open>_reshape_sho_matrix\<close> is unpacked.
\<close>

definition fit_reshape :: "be_loop_model \<Rightarrow> py_error + (real ndarray option \<times> nat list)" where
  "fit_reshape self =
     (if length (sho_all_but_forc_inds self) = 1
      then (case data_chunk self of
              None \<Rightarrow> Inr (None, [])
            | Some chunk \<Rightarrow>
                (case np_transpose chunk (rev [0..<length (shape chunk)]) of
                   Inl e \<Rightarrow> Inl e
                 | Inr loops_2d \<Rightarrow> Inr (Some loops_2d, shape loops_2d)))
      else (case data_chunk self of
              None \<Rightarrow> Inl TypeError
            | Some chunk \<Rightarrow>
                (case reshape_sho_matrix self chunk of
                   Inl e \<Rightarrow> Inl e
                 | Inr (w, None) \<Rightarrow> Inl TypeError
                 | Inr (w, Some (loops_2d, order_rev, nd_shape)) \<Rightarrow>
                     Inr (Some loops_2d, nd_shape))))"

text \<open>
  \<^verbatim>\<open>do_fit\<close>, line 371: \<^verbatim>\<open>np.roll(loops_2d, shift_ind, axis=0).T\<close>.
\<close>

definition fit_shift_loops :: "real ndarray option \<Rightarrow> int \<Rightarrow> py_error + real ndarray option" where
  "fit_shift_loops loops_2d shift_ind =
     (case loops_2d of
        None \<Rightarrow> Inr None
      | Some l \<Rightarrow>
          (case np_transpose (np_roll_axis0 l shift_ind) (rev [0..<length (shape l)]) of
             Inl e \<Rightarrow> Inl e
           | Inr ls \<Rightarrow> Inr (Some ls)))"

text \<open>
  Modelled from the spec: \<^verbatim>\<open>_set_results\<close> of the base class \<^verbatim>\<open>Model\<close>
  (\<^verbatim>\<open>analysis/model.py\<close>), which is not part of the sources. The specification (4.6)
  has the chunk results, concatenated, stored as the fit table.
\<close>

definition set_results :: "be_loop_model \<Rightarrow> loop_fit32 ndarray \<Rightarrow> be_loop_model" where
  "set_results self fit = self\<lparr>h5_fit := Some fit\<rparr>"

text \<open>
  \<^verbatim>\<open>do_fit\<close>, lines 376 to 404: the fit of all chunks when the solver and the
  objective function exist. The Boolean says whether the method goes on to line 406
  (\<open>False\<close>: it returned \<open>None\<close>); the strings are the lines printed or warned.
\<close>

definition fit_solve ::
  "nat \<Rightarrow> fit_services \<Rightarrow> string \<Rightarrow> string \<Rightarrow> real ndarray option \<Rightarrow> real list \<Rightarrow> nat list \<Rightarrow>
     be_loop_model \<Rightarrow> py_error + (bool \<times> string list \<times> be_loop_model) option" where
  "fit_solve fuel srv solver_type obj_func_name loops_2d_shifted vdc_shifted nd_shape self =
     (let legit_solver = solver_type \<in> set (solvers srv);
          legit_obj_func = obj_func_name \<in> set (methods srv)
      in if legit_solver \<and> legit_obj_func
         then (case do_fit_chunks fuel srv obj_func_name loops_2d_shifted vdc_shifted
                      nd_shape self [] of
                 Inl e \<Rightarrow> Inl e
               | Inr None \<Rightarrow> Inr None
               | Inr (Some (self1, results)) \<Rightarrow>
                   (case np_hstack results of
                      Inl e \<Rightarrow> Inl e
                    | Inr fit \<Rightarrow>
                        Inr (Some (True,
                               [''Using solver '' @ solver_type @ '' and objective function '' @
                                obj_func_name @ '' to fit your data''],
                               set_results self1 fit))))
         else if legit_obj_func
         then Inr (Some (False, [''Error: Solver '' @ solver_type @ '' does not exist!''], self))
         else if legit_solver
         then Inr (Some (False,
                [''Error: Objective Functions '' @ obj_func_name @ '' is not implemented''],
                self))
         else Inr (Some (True, [], self)))"

text \<open>
  \<^verbatim>\<open>do_fit\<close>, lines 406 to 409: the loop parameters of the fit, with the default
  nucleation threshold 0.03, and the returned fit table.
\<close>

definition fit_finish ::
  "fit_services \<Rightarrow> bool \<Rightarrow> string list \<Rightarrow> be_loop_model \<Rightarrow> py_error + do_fit_out option" where
  "fit_finish srv get_loop_parameters msgs self =
     (if \<not> get_loop_parameters
      then Inr (Some \<lparr>printed = msgs, returned = h5_fit self, final = self\<rparr>)
      else (case h5_fit self of
              None \<Rightarrow> Inl TypeError
            | Some fit_table \<Rightarrow>
                (case loop_parameter_values (calc_switching_coef_vec srv) fit_table (3 / 100) of
                   Inl e \<Rightarrow> Inl e
                 | Inr parms \<Rightarrow>
                     Inr (Some \<lparr>printed = msgs, returned = h5_fit self,
                                 final = self\<lparr>h5_fit_parameters := Some parms\<rparr>\<rparr>))))"

text \<open>
  \<^verbatim>\<open>do_fit\<close> from the set-up of the data sets to the end (lines 338 to 409), for an
  object that has a guess.
\<close>

definition do_fit_body ::
  "nat \<Rightarrow> fit_services \<Rightarrow> nat \<Rightarrow> string \<Rightarrow> string \<Rightarrow> bool \<Rightarrow> be_loop_model \<Rightarrow>
     py_error + do_fit_out option" where
  "do_fit_body fuel srv max_mem solver_type obj_func_name get_loop_parameters self0 =
     (case create_fit_dataset self0 of
        (warnings, self1) \<Rightarrow>
          (case get_sho_chunk_sizes self1 max_mem of
             Inl e \<Rightarrow> Inl e
           | Inr self2 \<Rightarrow>
               (case fit_first_chunk srv self2 of
                  Inl e \<Rightarrow> Inl e
                | Inr self3 \<Rightarrow>
                    (case fit_reshape self3 of
                       Inl e \<Rightarrow> Inl e
                     | Inr (loops_2d, nd_mat_shape_dc_first) \<Rightarrow>
                         (case shift_vdc (dc_vec self3) of
                            (shift_ind, vdc_shifted) \<Rightarrow>
                              (case fit_shift_loops loops_2d shift_ind of
                                 Inl e \<Rightarrow> Inl e
                               | Inr loops_2d_shifted \<Rightarrow>
                                   (case fit_solve fuel srv solver_type obj_func_name
                                           loops_2d_shifted vdc_shifted nd_mat_shape_dc_first
                                           self3 of
                                      Inl e \<Rightarrow> Inl e
                                    | Inr None \<Rightarrow> Inr None
                                    | Inr (Some (False, msgs, self4)) \<Rightarrow>
                                        Inr (Some \<lparr>printed = warnings @ msgs, returned = None,
                                                    final = self4\<rparr>)
                                    | Inr (Some (True, msgs, self4)) \<Rightarrow>
                                        fit_finish srv get_loop_parameters (warnings @ msgs)
                                          self4)))))))"

text \<open>
  \<^verbatim>\<open>do_fit\<close> (lines 280 to 409). \<open>set_guess\<close> stands for \<^verbatim>\<open>_set_guess\<close>, which looks
  up the data sets around a guess passed as \<^verbatim>\<open>h5_guess\<close> through helpers of
  \<^verbatim>\<open>io/hdf_utils.py\<close>.
\<close>

definition do_fit ::
  "nat \<Rightarrow> fit_services \<Rightarrow> (be_loop_model \<Rightarrow> 'h \<Rightarrow> py_error + be_loop_model) \<Rightarrow>
     nat option \<Rightarrow> nat option \<Rightarrow> string \<Rightarrow> string \<Rightarrow> bool \<Rightarrow> 'h option \<Rightarrow> be_loop_model \<Rightarrow>
     py_error + do_fit_out option" where
  "do_fit fuel srv set_guess processors max_mem solver_type obj_func_name get_loop_parameters
       h5_guess_arg self =
     (case fit_resources self processors max_mem of
        Inl e \<Rightarrow> Inl e
      | Inr (procs, mem, self1) \<Rightarrow>
          (case h5_guess_arg of
             Some h \<Rightarrow>
               (case set_guess self1 h of
                  Inl e \<Rightarrow> Inl e
                | Inr self2 \<Rightarrow>
                    do_fit_body fuel srv mem solver_type obj_func_name get_loop_parameters self2)
           | None \<Rightarrow>
               if h5_guess self1 = None
               then Inr (Some \<lparr>printed = [''You need to guess before fitting'' @ [CHR 0x0A]],
                               returned = None, final = self1\<rparr>)
               else do_fit_body fuel srv mem solver_type obj_func_name get_loop_parameters
                      self1))"

subsection \<open>Parameter extraction\<close>




subsection \<open>A data set of four positions with one loop of \<open>n\<close> DC steps\<close>

text \<open>
  The only spectroscopic dimension is \<^verbatim>\<open>DC_Offset\<close> with \<open>n\<close> steps; the main data set
  has the type \<^verbatim>\<open>sho32\<close> (five \<^verbatim>\<open>float32\<close> fields). The object is as
  \<^verbatim>\<open>__init__\<close> and \<^verbatim>\<open>_create_projection_datasets\<close> leave it.
\<close>

definition single_loop_model :: "nat \<Rightarrow> be_loop_model" where
  "single_loop_model n =
     \<lparr>sho_spec_inds = \<lparr>shape = [1, n], data = [0..<n]\<rparr>,
      sho_spec_labels = [''DC_Offset''],
      met_spec_inds = \<lparr>shape = [1, 1], data = [0]\<rparr>,
      met_spec_labels = [''Single_Step''],
      sho_pos_inds = \<lparr>shape = [4, 2], data = [0, 0, 1, 0, 0, 1, 1, 1]\<rparr>,
      h5_main_dtype_len = 5, h5_main_itemsize = 4,
      h5_projected_loops = \<lparr>shape = [4, n], data = replicate (4 * n) 0\<rparr>,
      h5_guess = None, h5_fit = None, h5_fit_parameters = None,
      dc_spec_index = 0, dc_offset_index = 1,
      num_forcs = 1, num_forc_repeats = 1, max_pos = 0,
      sho_spec_inds_per_forc = 0, metrics_spec_inds_per_forc = 0,
      sho_all_but_forc_inds = [], met_all_but_forc_inds = [],
      current_sho_spec_slice = SliceAll, current_met_spec_slice = SliceAll,
      current_forc = 0, start_pos = 0, end_pos = 4,
      data_chunk = None, guess = [], dc_vec = [],
      maxCpus = 1, maxMemoryMB = 1024, maxDataChunk = 1024\<rparr>"

subsection \<open>A data set of two positions with in-field and out-of-field loops\<close>


subsection \<open>A stand-in solver and a tree of two clusters\<close>

text \<open>
  A solver that adds the sum of the curve to each of the first nine entries of the guess
  and reports one residual; k-means that takes the first \<open>k\<close> loops as centroids and
  labels the loops in turn; a tree with the leaves 0 and 1 under the root 2, whose curve
  is the mean of the two centroids.
\<close>

definition stub_fit_loop :: "real list \<Rightarrow> real list \<Rightarrow> real list \<Rightarrow> fit_result" where
  "stub_fit_loop vdc curve g0 =
     \<lparr>res_x = map (\<lambda>a. a + sum_list curve) (take 9 (g0 @ replicate 9 0)),
      res_fun = [hd (curve @ [0]) - hd (vdc @ [0])]\<rparr>"


definition stub_services :: guess_services where
  "stub_services =
     \<lparr>kmeans = (\<lambda>k loops. Inr (take k loops, map (\<lambda>i. i mod k) [0..<length loops])),
      linkage = (\<lambda>centroids. [(0, 1, 2)]),
      cluster_tree = (\<lambda>pairs labels dists centroids.
         (Node 2 (map2 (\<lambda>a b. (a + b) / 2) (centroids ! 0) (centroids ! 1))
            [Node 0 (centroids ! 0) [], Node 1 (centroids ! 1) []], 3)),
      generate_guess = (\<lambda>vdc curve. replicate 9 1),
      fit_loop = stub_fit_loop\<rparr>"

definition four_loops :: "real list list" where
  "four_loops = [[1, 1, 1, 1], [3, 3, 3, 3], [1, 1, 1, 2], [3, 3, 3, 4]]"

subsection \<open>A data set of two positions and two FORC cycles\<close>

text \<open>
  One loop of four DC steps per FORC cycle. The projected loops of the first cycle are
  1 to 4 and 5 to 8, those of the second cycle 10 to 40 and 50 to 80; the guess of
  position \<open>p\<close> and cycle \<open>c\<close> starts at \<open>100 \<times> (2 p + c + 1)\<close>. \<open>two_forc_planned\<close> is the
  object once the chunk sizes are set and the first cycle is current. The stand-in
  solver returns the guess as coefficients and the sum of the loop it was given as its
  residual.
\<close>

definition guess_record :: "real \<Rightarrow> loop_fit32" where
  "guess_record c =
     \<lparr>a_0 = c, a_1 = c + 1, a_2 = c + 2, a_3 = c + 3, a_4 = c + 4,
      b_0 = c + 5, b_1 = c + 6, b_2 = c + 7, b_3 = c + 8, R2_Criterion = c + 9\<rparr>"

definition two_forc_model :: be_loop_model where
  "two_forc_model =
     \<lparr>sho_spec_inds = \<lparr>shape = [2, 8], data = [0, 1, 2, 3, 0, 1, 2, 3, 0, 0, 0, 0, 1, 1, 1, 1]\<rparr>,
      sho_spec_labels = [''DC_Offset'', ''FORC''],
      met_spec_inds = \<lparr>shape = [1, 2], data = [0, 1]\<rparr>,
      met_spec_labels = [''FORC''],
      sho_pos_inds = \<lparr>shape = [2, 1], data = [0, 1]\<rparr>,
      h5_main_dtype_len = 5, h5_main_itemsize = 4,
      h5_projected_loops =
        \<lparr>shape = [2, 8],
         data = [1, 2, 3, 4, 10, 20, 30, 40,
                 5, 6, 7, 8, 50, 60, 70, 80]\<rparr>,
      h5_guess = Some \<lparr>shape = [2, 2], data = [guess_record 100, guess_record 200, guess_record 300, guess_record 400]\<rparr>,
      h5_fit = None, h5_fit_parameters = None,
      dc_spec_index = 0, dc_offset_index = 1,
      num_forcs = 1, num_forc_repeats = 1, max_pos = 0,
      sho_spec_inds_per_forc = 0, metrics_spec_inds_per_forc = 0,
      sho_all_but_forc_inds = [], met_all_but_forc_inds = [],
      current_sho_spec_slice = SliceAll, current_met_spec_slice = SliceAll,
      current_forc = 0, start_pos = 0, end_pos = 2,
      data_chunk = None, guess = [], dc_vec = [],
      maxCpus = 1, maxMemoryMB = 1024, maxDataChunk = 1024\<rparr>"

definition stub_fit_services :: fit_services where
  "stub_fit_services =
     \<lparr>get_dc = (\<lambda>self. Inr (if current_forc self = 0 then [0, 1, 0, - 1] else [0, 2, 0, - 2])),
      compute_fit = (\<lambda>loops g vdc.
         map (\<lambda>i. \<lparr>res_x = g ! i, res_fun = [sum_list (row2d loops i)]\<rparr>) [0..<nrows loops]),
      solvers = [''least_squares''],
      methods = [''BE_LOOP''],
      calc_switching_coef_vec = (\<lambda>rows thr. map (\<lambda>row. [hd row + thr]) rows)\<rparr>"

text \<open>No guess is passed in the examples, so \<^verbatim>\<open>_set_guess\<close> has nothing to look up.\<close>

definition no_guess_arg :: "be_loop_model \<Rightarrow> unit \<Rightarrow> py_error + be_loop_model" where
  "no_guess_arg = (\<lambda>self h. Inr self)"

definition two_forc_planned :: be_loop_model where
  "two_forc_planned =
     two_forc_model\<lparr>num_forcs := 2, max_pos := 2, sho_spec_inds_per_forc := 4,
       metrics_spec_inds_per_forc := 1, sho_all_but_forc_inds := [0],
       met_all_but_forc_inds := [], current_sho_spec_slice := Slice 0 4,
       current_met_spec_slice := Slice 0 1\<rparr>"

subsection \<open>A file with one fit record\<close>



section \<open>Properties\<close>

subsection \<open>Number of clusters\<close>





subsection \<open>The chunk planner\<close>

lemma step1_single_loop_model:
  "chunk_sizes_step1 (single_loop_model n) =
     Inr \<lparr>num_dc_steps = n, step1_num_forcs = 1, step1_num_forc_repeats = 1,
          forc_name = None, forc_pos = None, forc_repeat_pos = None, loops_per_forc = 1\<rparr>"
  by (simp add: chunk_sizes_step1_def single_loop_model_def nrows_def ncols_def row2d_def
      unique_size_def list_remove_def get_dimensionality_def)

lemma get_sho_chunk_sizes_single_loop_model:
  "get_sho_chunk_sizes (single_loop_model n) mb =
     (if n = 0 then Inl (if mb = 0 then ValueError else OverflowError)
      else Inr ((single_loop_model n)\<lparr>num_forcs := 1, num_forc_repeats := 1,
             max_pos := min 4 (2 * (mb * 1024 ^ 2) div (7 * (n * 20))),
             sho_spec_inds_per_forc := n, metrics_spec_inds_per_forc := 1,
             sho_all_but_forc_inds := [0], met_all_but_forc_inds := [0]\<rparr>))"
  by (simp add: get_sho_chunk_sizes_def step1_single_loop_model size_per_forc_def
      mem_max_pos_def inds_per_forc_def chunk_sizes_step3_def)
     (simp add: single_loop_model_def nrows_def ncols_def)

text \<open>
  C2 (as amended). Whenever the chunk planner returns, the maximum number of positions
  is \<open>min\<close> of the number of positions and \<open>\<lfloor>budget / (size_per_forc \<times> 3.5)\<rfloor>\<close>, so
  \<open>max_pos \<times> size_per_forc \<times> 3.5 \<le> budget\<close> (written with integers as
  \<open>7 \<times> max_pos \<times> size_per_forc \<le> 2 \<times> budget\<close>). It is at least one unless there is no
  position or one position's single cycle times 3.5 exceeds the budget; in those cases
  the planner still returns, with \<open>max_pos = 0\<close>.
\<close>

theorem get_sho_chunk_sizes_max_pos:
  assumes "get_sho_chunk_sizes self max_mem_mb = Inr self'"
  shows "\<exists>s1. chunk_sizes_step1 self = Inr s1 \<and> 0 < size_per_forc self s1 \<and>
           max_pos self' = min (nrows (sho_pos_inds self))
                             (2 * (max_mem_mb * 1024 ^ 2) div (7 * size_per_forc self s1)) \<and>
           7 * (max_pos self' * size_per_forc self s1) \<le> 2 * (max_mem_mb * 1024 ^ 2) \<and>
           (max_pos self' = 0 \<longleftrightarrow>
              nrows (sho_pos_inds self) = 0 \<or>
              2 * (max_mem_mb * 1024 ^ 2) < 7 * size_per_forc self s1)"
proof -
  from assms obtain s1 mp where s1: "chunk_sizes_step1 self = Inr s1"
    and mp: "mem_max_pos max_mem_mb (size_per_forc self s1) = Inr mp"
    and m: "max_pos self' = min (nrows (sho_pos_inds self)) mp"
    by (auto simp: get_sho_chunk_sizes_def split: sum.splits)
  let ?z = "size_per_forc self s1" and ?b = "max_mem_mb * 1024 ^ 2"
  from mp have z: "0 < ?z" and mpv: "mp = (2 * ?b) div (7 * ?z)"
    by (auto simp: mem_max_pos_def split: if_splits)
  have le: "max_pos self' \<le> mp" using m by simp
  have "7 * (max_pos self' * ?z) = 7 * ?z * max_pos self'" by (simp add: mult_ac)
  also have "\<dots> \<le> 7 * ?z * mp" using le by (rule mult_le_mono2)
  also have "\<dots> \<le> 2 * ?b" unfolding mpv by (rule times_div_less_eq_dividend)
  finally have b: "7 * (max_pos self' * ?z) \<le> 2 * ?b" .
  have "mp = 0 \<longleftrightarrow> 2 * ?b < 7 * ?z" unfolding mpv using z by (simp add: div_eq_0_iff)
  then have e: "max_pos self' = 0 \<longleftrightarrow> nrows (sho_pos_inds self) = 0 \<or> 2 * ?b < 7 * ?z"
    using m by (auto simp: min_def)
  have m': "max_pos self' = min (nrows (sho_pos_inds self)) (2 * ?b div (7 * ?z))"
    using m mpv by simp
  show ?thesis
    by (rule exI[of _ s1]) (intro conjI s1 z m' b e)
qed

text \<open>With 64 DC steps and one megabyte all four positions fit in one chunk.\<close>

theorem get_sho_chunk_sizes_max_pos_witness:
  "get_sho_chunk_sizes (single_loop_model 64) 1 =
     Inr ((single_loop_model 64)\<lparr>num_forcs := 1, num_forc_repeats := 1, max_pos := 4,
            sho_spec_inds_per_forc := 64, metrics_spec_inds_per_forc := 1,
            sho_all_but_forc_inds := [0], met_all_but_forc_inds := [0]\<rparr>) \<and>
   (\<exists>s1. chunk_sizes_step1 (single_loop_model 64) = Inr s1 \<and>
      7 * (4 * size_per_forc (single_loop_model 64) s1) \<le> 2 * (1 * 1024 ^ 2))"
proof -
  have h: "get_sho_chunk_sizes (single_loop_model 64) 1 =
     Inr ((single_loop_model 64)\<lparr>num_forcs := 1, num_forc_repeats := 1, max_pos := 4,
            sho_spec_inds_per_forc := 64, metrics_spec_inds_per_forc := 1,
            sho_all_but_forc_inds := [0], met_all_but_forc_inds := [0]\<rparr>)"
    by (simp add: get_sho_chunk_sizes_single_loop_model)
  from get_sho_chunk_sizes_max_pos[OF h] obtain s1 where
    "chunk_sizes_step1 (single_loop_model 64) = Inr s1"
    "7 * (4 * size_per_forc (single_loop_model 64) s1) \<le> 2 * (1 * 1024 ^ 2)"
    by auto
  with h show ?thesis by blast
qed

text \<open>
  With one loop of 16384 DC steps (327680 bytes per position) and a budget of one
  megabyte, a single position's cycle times 3.5 exceeds the budget. The planner returns
  normally, with \<open>max_pos = 0\<close>: no configuration error is reported.
\<close>

theorem get_sho_chunk_sizes_zero_counterexample:
  "map_sum id max_pos (get_sho_chunk_sizes (single_loop_model 16384) 1) = Inr 0"
  by (simp add: get_sho_chunk_sizes_single_loop_model)

subsection \<open>The reshape engine\<close>






lemma index_of_nth: "distinct axes \<Longrightarrow> i < length axes \<Longrightarrow> index_of axes (axes ! i) = i"
proof (induction axes arbitrary: i)
  case Nil
  then show ?case by simp
next
  case (Cons a axes)
  show ?case
  proof (cases i)
    case 0
    then show ?thesis by (simp add: index_of_def)
  next
    case (Suc m)
    with Cons.prems have "axes ! m \<noteq> a" by auto
    with Cons Suc show ?thesis by (simp add: index_of_def)
  qed
qed















subsection \<open>The guess cascade: the tree walk\<close>











subsection \<open>The guess cascade: the guess record of a pixel\<close>

lemma cluster_guess_Inr:
  assumes "cluster_guess R c = Inr rec"
  shows "\<exists>res. c < length R \<and> R ! c = Some res \<and> length (res_x res) = 9 \<and>
           rec = \<lparr>a_0 = res_x res ! 0, a_1 = res_x res ! 1, a_2 = res_x res ! 2,
                  a_3 = res_x res ! 3, a_4 = res_x res ! 4, b_0 = res_x res ! 5,
                  b_1 = res_x res ! 6, b_2 = res_x res ! 7, b_3 = res_x res ! 8,
                  R2_Criterion = 1 - (\<Sum>v\<leftarrow>res_fun res. \<bar>v ^ 2\<bar>)\<rparr>"
proof -
  from assms obtain res where c: "c < length R" and r: "R ! c = Some res"
    and rc: "realToCompound (res_x res @ [1 - (\<Sum>v\<leftarrow>res_fun res. \<bar>v ^ 2\<bar>)]) = Inr rec"
    by (auto simp: cluster_guess_def Let_def split: if_splits option.splits)
  from rc have l: "length (res_x res) = 9"
    by (auto simp: realToCompound_def split: if_splits)
  from rc l have "rec = \<lparr>a_0 = res_x res ! 0, a_1 = res_x res ! 1, a_2 = res_x res ! 2,
                  a_3 = res_x res ! 3, a_4 = res_x res ! 4, b_0 = res_x res ! 5,
                  b_1 = res_x res ! 6, b_2 = res_x res ! 7, b_3 = res_x res ! 8,
                  R2_Criterion = 1 - (\<Sum>v\<leftarrow>res_fun res. \<bar>v ^ 2\<bar>)\<rparr>"
    by (auto simp: realToCompound_def nth_append)
  with c r l show ?thesis by blast
qed

lemma assign_guess_parms_result:
  assumes "assign_guess_parms R labels cs gp = Inr gp'"
  shows "length gp' = length gp \<and>
         (\<forall>p < length gp.
            (p < length labels \<and> labels ! p \<in> set cs \<longrightarrow>
               cluster_guess R (labels ! p) = Inr (gp' ! p)) \<and>
            (\<not> (p < length labels \<and> labels ! p \<in> set cs) \<longrightarrow> gp' ! p = gp ! p))"
  using assms
proof (induction cs arbitrary: gp)
  case Nil
  then show ?case by simp
next
  case (Cons c cs)
  from Cons.prems obtain compound where cg: "cluster_guess R c = Inr compound"
    by (auto split: sum.splits)
  define gp1 where "gp1 = map (\<lambda>i. if i < length labels \<and> labels ! i = c then compound
                            else gp ! i) [0..<length gp]"
  from Cons.prems cg have run: "assign_guess_parms R labels cs gp1 = Inr gp'"
    by (auto simp: gp1_def split: if_splits)
  note ih = Cons.IH[OF run]
  have l1: "length gp1 = length gp" by (simp add: gp1_def)
  have g1: "gp1 ! p = (if p < length labels \<and> labels ! p = c then compound else gp ! p)"
    if "p < length gp" for p
    using that by (simp add: gp1_def)
  show ?case
  proof (intro conjI allI impI)
    show "length gp' = length gp" using ih l1 by simp
  next
    fix p assume p: "p < length gp" and h: "p < length labels \<and> labels ! p \<in> set (c # cs)"
    show "cluster_guess R (labels ! p) = Inr (gp' ! p)"
    proof (cases "labels ! p \<in> set cs")
      case True
      then show ?thesis using ih p l1 h by simp
    next
      case False
      then have e: "labels ! p = c" using h by simp
      have "gp' ! p = gp1 ! p" using ih p l1 False by simp
      also have "\<dots> = compound" using g1[OF p] h e by simp
      finally show ?thesis using cg e by simp
    qed
  next
    fix p assume p: "p < length gp" and h: "\<not> (p < length labels \<and> labels ! p \<in> set (c # cs))"
    then have "gp' ! p = gp1 ! p" using ih l1 by auto
    also have "\<dots> = gp ! p" using g1[OF p] h by auto
    finally show "gp' ! p = gp ! p" .
  qed
qed

text \<open>
  C7. When \<^verbatim>\<open>_guess_loops\<close> returns, the guess record of every pixel whose label is a
  cluster number holds, in its nine coefficient fields, the coefficients of the fit
  result stored under that label, and in \<^verbatim>\<open>R2 Criterion\<close> one minus the sum of the
  absolute squared residuals of that fit.
\<close>

theorem guess_loops_pixel_record:
  assumes run: "guess_loops srv vdc loops = Inr guess_parms"
    and fits: "guess_loops_fits srv vdc loops = Inr (labels, results)"
    and p: "p < length loops" "p < length labels"
    and lab: "labels ! p < num_clusters (length loops)"
  shows "\<exists>res. results ! (labels ! p) = Some res \<and> length (res_x res) = 9 \<and>
           guess_parms ! p =
             \<lparr>a_0 = res_x res ! 0, a_1 = res_x res ! 1, a_2 = res_x res ! 2,
              a_3 = res_x res ! 3, a_4 = res_x res ! 4, b_0 = res_x res ! 5,
              b_1 = res_x res ! 6, b_2 = res_x res ! 7, b_3 = res_x res ! 8,
              R2_Criterion = 1 - (\<Sum>v\<leftarrow>res_fun res. \<bar>v ^ 2\<bar>)\<rparr>"
proof -
  from run fits have a: "assign_guess_parms results labels [0..<num_clusters (length loops)]
            (replicate (length loops) zero_loop_fit32) = Inr guess_parms"
    by (simp add: guess_loops_def)
  from assign_guess_parms_result[OF a] p lab
  have "cluster_guess results (labels ! p) = Inr (guess_parms ! p)" by simp
  from cluster_guess_Inr[OF this] show ?thesis by blast
qed

text \<open>Four loops in two clusters: the third loop has label 0.\<close>

theorem guess_loops_pixel_record_witness:
  "guess_loops stub_services [3, 4, 1, 2] four_loops =
     Inr [\<lparr>a_0 = 13, a_1 = 13, a_2 = 13, a_3 = 13, a_4 = 13, b_0 = 13, b_1 = 13,
            b_2 = 13, b_3 = 13, R2_Criterion = - 8\<rparr>,
          \<lparr>a_0 = 21, a_1 = 21, a_2 = 21, a_3 = 21, a_4 = 21, b_0 = 21, b_1 = 21,
            b_2 = 21, b_3 = 21, R2_Criterion = 0\<rparr>,
          \<lparr>a_0 = 13, a_1 = 13, a_2 = 13, a_3 = 13, a_4 = 13, b_0 = 13, b_1 = 13,
            b_2 = 13, b_3 = 13, R2_Criterion = - 8\<rparr>,
          \<lparr>a_0 = 21, a_1 = 21, a_2 = 21, a_3 = 21, a_4 = 21, b_0 = 21, b_1 = 21,
            b_2 = 21, b_3 = 21, R2_Criterion = 0\<rparr>] \<and>
   (\<exists>res. Some \<lparr>res_x = [13, 13, 13, 13, 13, 13, 13, 13, 13], res_fun = [- 3]\<rparr> = Some res \<and>
      length (res_x res) = 9 \<and>
      \<lparr>a_0 = 13, a_1 = 13, a_2 = 13, a_3 = 13, a_4 = 13, b_0 = 13, b_1 = 13,
        b_2 = 13, b_3 = 13, R2_Criterion = - 8\<rparr> =
      \<lparr>a_0 = res_x res ! 0, a_1 = res_x res ! 1, a_2 = res_x res ! 2,
       a_3 = res_x res ! 3, a_4 = res_x res ! 4, b_0 = res_x res ! 5,
       b_1 = res_x res ! 6, b_2 = res_x res ! 7, b_3 = res_x res ! 8,
       R2_Criterion = 1 - (\<Sum>v\<leftarrow>res_fun res. \<bar>v ^ 2\<bar>)\<rparr>)"
proof -
  have run: "guess_loops stub_services [3, 4, 1, 2] four_loops =
     Inr [\<lparr>a_0 = 13, a_1 = 13, a_2 = 13, a_3 = 13, a_4 = 13, b_0 = 13, b_1 = 13,
            b_2 = 13, b_3 = 13, R2_Criterion = - 8\<rparr>,
          \<lparr>a_0 = 21, a_1 = 21, a_2 = 21, a_3 = 21, a_4 = 21, b_0 = 21, b_1 = 21,
            b_2 = 21, b_3 = 21, R2_Criterion = 0\<rparr>,
          \<lparr>a_0 = 13, a_1 = 13, a_2 = 13, a_3 = 13, a_4 = 13, b_0 = 13, b_1 = 13,
            b_2 = 13, b_3 = 13, R2_Criterion = - 8\<rparr>,
          \<lparr>a_0 = 21, a_1 = 21, a_2 = 21, a_3 = 21, a_4 = 21, b_0 = 21, b_1 = 21,
            b_2 = 21, b_3 = 21, R2_Criterion = 0\<rparr>]"
    by code_simp
  have fits: "guess_loops_fits stub_services [3, 4, 1, 2] four_loops =
     Inr ([0, 1, 0, 1],
          [Some \<lparr>res_x = [13, 13, 13, 13, 13, 13, 13, 13, 13], res_fun = [- 3]\<rparr>,
           Some \<lparr>res_x = [21, 21, 21, 21, 21, 21, 21, 21, 21], res_fun = [- 1]\<rparr>,
           Some \<lparr>res_x = [9, 9, 9, 9, 9, 9, 9, 9, 9], res_fun = [- 2]\<rparr>])"
    by code_simp
  have p: "2 < length four_loops" "2 < length [0, 1, 0, 1 :: nat]"
    by (simp_all add: four_loops_def)
  have lab: "[0, 1, 0, 1] ! 2 < num_clusters (length four_loops)"
    by (simp add: num_clusters_def)
  from guess_loops_pixel_record[OF run fits p lab] run show ?thesis by simp
qed

subsection \<open>The fit driver\<close>

text \<open>
  C10. Whenever \<^verbatim>\<open>_get_guess_chunk\<close> returns, every row of the guess it leaves for the
  solver consists of the nine coefficient fields \<open>a_0\<close> to \<open>b_3\<close> of one stored guess
  record of the current rows and columns, in this order; the \<^verbatim>\<open>R2 Criterion\<close> is not
  part of it.
\<close>

theorem get_guess_chunk_strips_r2:
  assumes "get_guess_chunk get_dc_offset self = Inr self'"
  shows "\<exists>guess_table. h5_guess self' = Some guess_table \<and>
           guess self' =
             map (\<lambda>r. [a_0 r, a_1 r, a_2 r, a_3 r, a_4 r, b_0 r, b_1 r, b_2 r, b_3 r])
               (data (getitem2d guess_table (Slice (start_pos self') (end_pos self'))
                        (current_met_spec_slice self')))"
proof -
  have b: "butlast (compound_to_scalar r) =
           [a_0 r, a_1 r, a_2 r, a_3 r, a_4 r, b_0 r, b_1 r, b_2 r, b_3 r]" for r
    by (simp add: compound_to_scalar_def)
  from assms obtain s t where t: "h5_guess s = Some t"
    and s': "self' = s\<lparr>guess := map (\<lambda>r. butlast (compound_to_scalar r))
                (data (getitem2d t (Slice (start_pos s) (end_pos s)) (current_met_spec_slice s)))\<rparr>"
    by (auto simp: get_guess_chunk_def Let_def split: sum.splits option.splits)
  show ?thesis using t by (simp add: s' b)
qed

text \<open>The first chunk of the two-cycle data set: the guesses of both positions.\<close>

theorem get_guess_chunk_strips_r2_witness:
  "get_guess_chunk (get_dc stub_fit_services) two_forc_planned =
     Inr (two_forc_planned\<lparr>
            data_chunk := Some \<lparr>shape = [2, 4], data = [1, 2, 3, 4, 5, 6, 7, 8]\<rparr>,
            guess := [[100, 101, 102, 103, 104, 105, 106, 107, 108],
                      [300, 301, 302, 303, 304, 305, 306, 307, 308]]\<rparr>) \<and>
   (\<exists>guess_table. h5_guess two_forc_planned = Some guess_table \<and>
      [[100, 101, 102, 103, 104, 105, 106, 107, 108],
       [300, 301, 302, 303, 304, 305, 306, 307, 308]] =
      map (\<lambda>r. [a_0 r, a_1 r, a_2 r, a_3 r, a_4 r, b_0 r, b_1 r, b_2 r, b_3 r])
        (data (getitem2d guess_table (Slice 0 2) (Slice 0 1))))"
proof -
  have h: "get_guess_chunk (get_dc stub_fit_services) two_forc_planned =
     Inr (two_forc_planned\<lparr>
            data_chunk := Some \<lparr>shape = [2, 4], data = [1, 2, 3, 4, 5, 6, 7, 8]\<rparr>,
            guess := [[100, 101, 102, 103, 104, 105, 106, 107, 108],
                      [300, 301, 302, 303, 304, 305, 306, 307, 308]]\<rparr>)"
    by code_simp
  from get_guess_chunk_strips_r2[OF h] h show ?thesis
    by (simp add: two_forc_planned_def two_forc_model_def)
qed

text \<open>
  C8. Without a guess, neither passed as \<^verbatim>\<open>h5_guess\<close> nor present in the object,
  \<^verbatim>\<open>do_fit\<close> prints that a guess is needed and returns \<open>None\<close>, whatever the other
  arguments and collaborators are. No fit table is created and no chunk is fitted: the
  object is as before, but for \<open>maxDataChunk\<close> when a memory limit was passed. The
  division by the number of CPUs in that case needs at least one CPU.
\<close>

theorem do_fit_without_guess:
  assumes "h5_guess self = None" and "max_mem = None \<or> maxCpus self \<noteq> 0"
  shows "do_fit fuel srv set_guess processors max_mem solver_type obj_func_name
           get_loop_parameters None self =
         Inr (Some \<lparr>printed = [''You need to guess before fitting'' @ [CHR 0x0A]],
                     returned = None,
                     final = (case max_mem of
                                None \<Rightarrow> self
                              | Some m \<Rightarrow> self\<lparr>maxDataChunk :=
                                                  min m (maxMemoryMB self) div maxCpus self\<rparr>)\<rparr>)"
  using assms by (auto simp: do_fit_def fit_resources_def Let_def split: option.splits)

text \<open>The single-loop data set, which has no guess, with a limit of 512 MB.\<close>

theorem do_fit_without_guess_witness:
  "do_fit 0 stub_fit_services no_guess_arg None (Some 512) ''least_squares'' ''BE_LOOP'' True None
     (single_loop_model 64) =
   Inr (Some \<lparr>printed = [''You need to guess before fitting'' @ [CHR 0x0A]],
               returned = None,
               final = (single_loop_model 64)\<lparr>maxDataChunk := 512\<rparr>\<rparr>)"
proof -
  have a: "h5_guess (single_loop_model 64) = None" by (simp add: single_loop_model_def)
  have b: "Some (512::nat) = None \<or> maxCpus (single_loop_model 64) \<noteq> 0"
    by (simp add: single_loop_model_def)
  have c: "min 512 (maxMemoryMB (single_loop_model 64)) div maxCpus (single_loop_model 64) = 512"
    by (simp add: single_loop_model_def)
  show ?thesis
    using do_fit_without_guess[OF a b, of 0 stub_fit_services no_guess_arg None
        "''least_squares''" "''BE_LOOP''" True]
    by (simp add: c)
qed

text \<open>
  The fit of the data set with two FORC cycles. The residual that the stand-in solver
  reports is the sum of the loop it was given. The two chunks are the two cycles. In the
  fit table the records of the second cycle (second column) carry the residuals 10 and
  26, the sums of the loops of the first cycle, where the stored loops of the second
  cycle sum to 100 and 260: the second chunk was fitted on the loops of the first.
\<close>

lemma plan_two_forc:
  "get_sho_chunk_sizes (two_forc_model\<lparr>h5_fit := Some t\<rparr>) 1024 =
     Inr (two_forc_model\<lparr>h5_fit := Some t, num_forcs := 2, num_forc_repeats := 1, max_pos := 2,
            sho_spec_inds_per_forc := 4, metrics_spec_inds_per_forc := 1,
            sho_all_but_forc_inds := [0], met_all_but_forc_inds := []\<rparr>)"
proof -
  have u: "[0..<2::nat] = [0, 1]" by code_simp
  have s1: "chunk_sizes_step1 (two_forc_model\<lparr>h5_fit := Some t\<rparr>) =
     Inr \<lparr>num_dc_steps = 4, step1_num_forcs = 2, step1_num_forc_repeats = 1,
          forc_name = Some ''FORC'', forc_pos = Some 1, forc_repeat_pos = None,
          loops_per_forc = 1\<rparr>"
    by (simp add: chunk_sizes_step1_def two_forc_model_def nrows_def ncols_def row2d_def
        unique_size_def list_remove_def get_dimensionality_def u)
  show ?thesis
    by (simp add: get_sho_chunk_sizes_def s1 size_per_forc_def mem_max_pos_def
        inds_per_forc_def chunk_sizes_step3_def)
       (simp add: two_forc_model_def nrows_def ncols_def list_remove_def u)
qed

lemma create_fit_two_forc:
  "create_fit_dataset two_forc_model =
     ([], two_forc_model\<lparr>h5_fit := Some \<lparr>shape = [2, 2], data = [zero_loop_fit32, zero_loop_fit32, zero_loop_fit32, zero_loop_fit32]\<rparr>\<rparr>)"
  by (simp add: create_fit_dataset_def two_forc_model_def create_empty_dataset_def)

lemma do_fit_two_forc_body:
  "do_fit fuel stub_fit_services no_guess_arg None None ''least_squares'' ''BE_LOOP'' True None
     two_forc_model =
   do_fit_body fuel stub_fit_services 1024 ''least_squares'' ''BE_LOOP'' True two_forc_model"
  by (simp add: do_fit_def fit_resources_def two_forc_model_def)

theorem do_fit_second_chunk_first_loops:
  "map_sum id (map_option returned)
     (do_fit 2 stub_fit_services no_guess_arg None None ''least_squares'' ''BE_LOOP'' True None
        two_forc_model) =
   Inr (Some (Some \<lparr>shape = [2, 2],
     data = [(guess_record 100)\<lparr>R2_Criterion := 10\<rparr>, (guess_record 200)\<lparr>R2_Criterion := 10\<rparr>,
             (guess_record 300)\<lparr>R2_Criterion := 26\<rparr>, (guess_record 400)\<lparr>R2_Criterion := 26\<rparr>]\<rparr>)) \<and>
   map (\<lambda>i. sum_list (row2d (getitem2d (h5_projected_loops two_forc_model) (Slice 0 2)
                               (forc_slice 4 1)) i)) [0, 1] = [100, 260]"
proof -
  have a: "map_sum id (map_option returned)
     (do_fit 2 stub_fit_services no_guess_arg None None ''least_squares'' ''BE_LOOP'' True None
        two_forc_model) =
   Inr (Some (Some \<lparr>shape = [2, 2],
     data = [(guess_record 100)\<lparr>R2_Criterion := 10\<rparr>, (guess_record 200)\<lparr>R2_Criterion := 10\<rparr>,
             (guess_record 300)\<lparr>R2_Criterion := 26\<rparr>, (guess_record 400)\<lparr>R2_Criterion := 26\<rparr>]\<rparr>))"
    unfolding do_fit_two_forc_body do_fit_body_def create_fit_two_forc prod.case plan_two_forc
      sum.case
    by code_simp
  have b: "map (\<lambda>i. sum_list (row2d (getitem2d (h5_projected_loops two_forc_model) (Slice 0 2)
                               (forc_slice 4 1)) i)) [0, 1] = [100, 260]"
    by code_simp
  show ?thesis by (rule conjI[OF a b])
qed

subsection \<open>Parameter extraction\<close>



end
